theory Spec2Isabelle
  imports Main "HOL-Library.Sublist"
begin

section \<open>Strings\<close>

text \<open>
  A Python \<open>str\<close> is a sequence of Unicode code points, so it is modelled as a list of
  natural numbers. ASCII text is written through \<open>ascii\<close>; the Chinese literals of the
  source are written as their code points (for instance U+8BCD U+6CD5 for the first two
  characters of the lexical-analysis messages).
\<close>

type_synonym pystr = "nat list"

definition ascii :: "string \<Rightarrow> pystr" where
  "ascii s = map of_char s"

text \<open>\<open>str(n)\<close> for a non-negative integer, as the f-string in \<open>compile\<close> renders \<open>len(self.tokens)\<close>.\<close>

fun str_nat :: "nat \<Rightarrow> pystr" where
  "str_nat n = (if n < 10 then [48 + n] else str_nat (n div 10) @ [48 + n mod 10])"

declare str_nat.simps [simp del]

text \<open>A parameter with a default value: \<open>None\<close> stands for an argument that the caller left out.\<close>

definition arg_or :: "'a \<Rightarrow> 'a option \<Rightarrow> 'a" where
  "arg_or d a = (case a of None \<Rightarrow> d | Some v \<Rightarrow> v)"

section \<open>The compiler driver (compiler.py)\<close>

subsection \<open>Exceptions\<close>

text \<open>
  The four exception classes of compiler.py. \<open>LexerError\<close>, \<open>ParserError\<close> and
  \<open>CodeGenError\<close> each derive directly from \<open>CompilerError\<close>. A raised exception is its
  class together with its message.
\<close>

datatype error_class = CompilerError | LexerError | ParserError | CodeGenError

type_synonym error = "error_class \<times> pystr"

text \<open>\<open>isinstance\<close> on an exception of class \<open>k\<close> against class \<open>k'\<close>.\<close>

fun isinstance :: "error_class \<Rightarrow> error_class \<Rightarrow> bool" where
  "isinstance k CompilerError = True"
| "isinstance k k' = (k = k')"

subsection \<open>The imported stages\<close>

text \<open>
  \<open>tokenize\<close>, \<open>parse\<close> and \<open>generate_solidity\<close> are imported from the lexer, parser and
  codegen packages; the driver only calls them. They are parameters of the model. A stage
  either returns a value (\<open>Inr\<close>) or raises an \<open>Exception\<close>, of which the driver only ever
  uses the text \<open>str(e)\<close> (\<open>Inl\<close>). The token and AST types are left open.
\<close>

record ('tok, 'ast) stages =
  tokenize :: "pystr \<Rightarrow> pystr + 'tok list"
  parse :: "'tok list \<Rightarrow> pystr + 'ast"
  generate_solidity :: "'ast \<Rightarrow> pystr + pystr"

subsection \<open>The compiler object and its effects\<close>

record ('tok, 'ast) ChineseSolidityCompiler =
  verbose :: bool
  source_code :: pystr
  tokens :: "'tok list"
  ast :: "'ast option"
  solidity_code :: pystr

text \<open>\<open>__init__(self, verbose=False)\<close>.\<close>

definition ChineseSolidityCompiler_init :: "bool option \<Rightarrow> ('tok, 'ast) ChineseSolidityCompiler" where
  "ChineseSolidityCompiler_init v =
     \<lparr>verbose = arg_or False v, source_code = [], tokens = [], ast = None, solidity_code = []\<rparr>"

text \<open>
  What a call does besides returning is recorded, in order, as a list of effects: a line
  printed by \<open>log\<close>, a call of one of the three stages with the argument it was given, and
  the file operations of \<open>compile_file\<close>.
\<close>

datatype ('tok, 'ast) effect =
    Printed pystr
  | Called_tokenize pystr
  | Called_parse "'tok list"
  | Called_generate_solidity 'ast
  | Opened_for_reading pystr
  | Called_makedirs pystr
  | Opened_for_writing pystr pystr

definition log :: "('tok, 'ast) ChineseSolidityCompiler \<Rightarrow> pystr \<Rightarrow> ('tok, 'ast) effect list" where
  "log self message =
     (if verbose self
      then [Printed (ascii ''['' @ [0x7F16, 0x8BD1, 0x5668] @ ascii ''] '' @ message)]
      else [])"

text \<open>The outcome of a method call: the object afterwards, the effects, and the value returned
  (\<open>Inr\<close>) or the exception raised (\<open>Inl\<close>).\<close>

type_synonym ('tok, 'ast) outcome =
  "('tok, 'ast) ChineseSolidityCompiler \<times> ('tok, 'ast) effect list \<times> (error + pystr)"

definition object_after :: "('tok, 'ast) outcome \<Rightarrow> ('tok, 'ast) ChineseSolidityCompiler" where
  "object_after out = fst out"

definition trace :: "('tok, 'ast) outcome \<Rightarrow> ('tok, 'ast) effect list" where
  "trace out = fst (snd out)"

definition result :: "('tok, 'ast) outcome \<Rightarrow> error + pystr" where
  "result out = snd (snd out)"

fun is_stage_call :: "('tok, 'ast) effect \<Rightarrow> bool" where
  "is_stage_call (Called_tokenize s) = True"
| "is_stage_call (Called_parse ts) = True"
| "is_stage_call (Called_generate_solidity a) = True"
| "is_stage_call e = False"

definition stage_calls :: "('tok, 'ast) outcome \<Rightarrow> ('tok, 'ast) effect list" where
  "stage_calls out = filter is_stage_call (trace out)"

subsection \<open>compile\<close>

text \<open>
  The method \<open>compile(self, source_code)\<close>, statement by statement. Each \<open>try\<close> block holds one
  stage call and the log line after it; its handler catches every \<open>Exception\<close> and raises the
  stage's own error class with the stage's prefix before \<open>str(e)\<close>.
\<close>

definition compile ::
  "('tok, 'ast) stages \<Rightarrow> ('tok, 'ast) ChineseSolidityCompiler \<Rightarrow> pystr \<Rightarrow> ('tok, 'ast) outcome" where
  "compile st self src =
    (let self1 = self\<lparr>source_code := src\<rparr>;
         ev1 = log self1 ([0x5F00, 0x59CB, 0x8BCD, 0x6CD5, 0x5206, 0x6790] @ ascii ''...'')
               @ [Called_tokenize src]
     in case tokenize st src of
          Inl e \<Rightarrow>
            (self1, ev1,
             Inl (LexerError, [0x8BCD, 0x6CD5, 0x5206, 0x6790, 0x5931, 0x8D25] @ ascii '': '' @ e))
        | Inr toks \<Rightarrow>
            (let self2 = self1\<lparr>tokens := toks\<rparr>;
                 ev2 = ev1
                   @ log self2 ([0x8BCD, 0x6CD5, 0x5206, 0x6790, 0x5B8C, 0x6210, 0xFF0C, 0x5171]
                                @ ascii '' '' @ str_nat (length (tokens self2))
                                @ ascii '' '' @ [0x4E2A] @ ascii ''Token'')
                   @ log self2 ([0x5F00, 0x59CB, 0x8BED, 0x6CD5, 0x5206, 0x6790] @ ascii ''...'')
                   @ [Called_parse (tokens self2)]
             in case parse st (tokens self2) of
                  Inl e \<Rightarrow>
                    (self2, ev2,
                     Inl (ParserError,
                          [0x8BED, 0x6CD5, 0x5206, 0x6790, 0x5931, 0x8D25] @ ascii '': '' @ e))
                | Inr tree \<Rightarrow>
                    (let self3 = self2\<lparr>ast := Some tree\<rparr>;
                         ev3 = ev2
                           @ log self3 [0x8BED, 0x6CD5, 0x5206, 0x6790, 0x5B8C, 0x6210]
                           @ log self3 ([0x5F00, 0x59CB, 0x4EE3, 0x7801, 0x751F, 0x6210] @ ascii ''...'')
                           @ [Called_generate_solidity tree]
                     in case generate_solidity st tree of
                          Inl e \<Rightarrow>
                            (self3, ev3,
                             Inl (CodeGenError,
                                  [0x4EE3, 0x7801, 0x751F, 0x6210, 0x5931, 0x8D25] @ ascii '': '' @ e))
                        | Inr code \<Rightarrow>
                            (let self4 = self3\<lparr>solidity_code := code\<rparr>
                             in (self4,
                                 ev3 @ log self4 [0x4EE3, 0x7801, 0x751F, 0x6210, 0x5B8C, 0x6210],
                                 Inr (solidity_code self4))))))"

text \<open>The three getters.\<close>

definition get_tokens :: "('tok, 'ast) ChineseSolidityCompiler \<Rightarrow> 'tok list" where
  "get_tokens self = tokens self"

definition get_ast :: "('tok, 'ast) ChineseSolidityCompiler \<Rightarrow> 'ast option" where
  "get_ast self = ast self"

definition get_solidity_code :: "('tok, 'ast) ChineseSolidityCompiler \<Rightarrow> pystr" where
  "get_solidity_code self = solidity_code self"

text \<open>The module-level convenience function \<open>compile_code(source_code, verbose=False)\<close>.\<close>

definition compile_code ::
  "('tok, 'ast) stages \<Rightarrow> pystr \<Rightarrow> bool option \<Rightarrow> ('tok, 'ast) outcome" where
  "compile_code st src v = compile st (ChineseSolidityCompiler_init v) src"

subsection \<open>compile_file\<close>

text \<open>
  The file system is reached through \<open>open\<close>, \<open>os.path.dirname\<close> and \<open>os.makedirs\<close>. What
  they answer is a parameter of the model. Reading \<open>input_file\<close> either raises
  \<open>FileNotFoundError\<close>, raises another \<open>Exception\<close> (with its text), or yields the text of
  the file. \<open>makedirs\<close> and the \<open>with open(output_file, 'w')\<close> block either complete
  (\<open>None\<close>) or raise an \<open>Exception\<close> (\<open>Some\<close> of its text).
\<close>

datatype read_outcome = Raised_FileNotFoundError | Raised_Exception pystr | Read_text pystr

record files =
  open_read :: "pystr \<Rightarrow> read_outcome"
  dirname :: "pystr \<Rightarrow> pystr"
  makedirs :: "pystr \<Rightarrow> pystr option"
  open_write :: "pystr \<Rightarrow> pystr \<Rightarrow> pystr option"

text \<open>
  The method \<open>compile_file(self, input_file, output_file=None)\<close>. The test
  \<open>if output_file:\<close> is false for \<open>None\<close> and for the empty string.
\<close>

definition compile_file ::
  "('tok, 'ast) stages \<Rightarrow> files \<Rightarrow> ('tok, 'ast) ChineseSolidityCompiler \<Rightarrow> pystr \<Rightarrow> pystr option
   \<Rightarrow> ('tok, 'ast) outcome" where
  "compile_file st fs self input_file output_file =
    (let ev0 = log self ([0x8BFB, 0x53D6, 0x6E90, 0x6587, 0x4EF6] @ ascii '': '' @ input_file)
               @ [Opened_for_reading input_file]
     in case open_read fs input_file of
          Raised_FileNotFoundError \<Rightarrow>
            (self, ev0,
             Inl (CompilerError,
                  [0x6587, 0x4EF6, 0x4E0D, 0x5B58, 0x5728] @ ascii '': '' @ input_file))
        | Raised_Exception e \<Rightarrow>
            (self, ev0,
             Inl (CompilerError,
                  [0x8BFB, 0x53D6, 0x6587, 0x4EF6, 0x5931, 0x8D25] @ ascii '': '' @ e))
        | Read_text text \<Rightarrow>
            (let self1 = self\<lparr>source_code := text\<rparr>;
                 out = compile st self1 (source_code self1);
                 self2 = object_after out;
                 ev1 = ev0 @ trace out
             in case result out of
                  Inl err \<Rightarrow> (self2, ev1, Inl err)
                | Inr code \<Rightarrow>
                    (if arg_or [] output_file \<noteq> []
                     then
                       (let path = arg_or [] output_file;
                            ev2 = ev1
                              @ log self2 ([0x5199, 0x5165, 0x8F93, 0x51FA, 0x6587, 0x4EF6]
                                           @ ascii '': '' @ path)
                              @ [Called_makedirs (dirname fs path)]
                        in case makedirs fs (dirname fs path) of
                             Some e \<Rightarrow>
                               (self2, ev2,
                                Inl (CompilerError,
                                     [0x5199, 0x5165, 0x6587, 0x4EF6, 0x5931, 0x8D25]
                                     @ ascii '': '' @ e))
                           | None \<Rightarrow>
                               (case open_write fs path code of
                                  Some e \<Rightarrow>
                                    (self2, ev2 @ [Opened_for_writing path code],
                                     Inl (CompilerError,
                                          [0x5199, 0x5165, 0x6587, 0x4EF6, 0x5931, 0x8D25]
                                          @ ascii '': '' @ e))
                                | None \<Rightarrow>
                                    (self2, ev2 @ [Opened_for_writing path code], Inr code)))
                     else (self2, ev1, Inr code))))"

text \<open>The module-level function \<open>compile_file(input_file, output_file=None, verbose=False)\<close>.\<close>

definition compile_file_function ::
  "('tok, 'ast) stages \<Rightarrow> files \<Rightarrow> pystr \<Rightarrow> pystr option \<Rightarrow> bool option \<Rightarrow> ('tok, 'ast) outcome" where
  "compile_file_function st fs input_file output_file v =
     compile_file st fs (ChineseSolidityCompiler_init v) input_file output_file"

fun is_output_effect :: "('tok, 'ast) effect \<Rightarrow> bool" where
  "is_output_effect (Called_makedirs d) = True"
| "is_output_effect (Opened_for_writing p c) = True"
| "is_output_effect e = False"

section \<open>AST nodes (ast_nodes.py)\<close>

datatype NodeType =
    PROGRAM | CONTRACT | FUNCTION | CONSTRUCTOR | STATE_VARIABLE | EVENT | PARAMETER | BLOCK
  | RETURN_STATEMENT | IF_STATEMENT | FOR_STATEMENT | WHILE_STATEMENT | EXPRESSION_STATEMENT
  | VARIABLE_DECLARATION | ASSIGNMENT | BINARY_EXPRESSION | UNARY_EXPRESSION | CALL_EXPRESSION
  | MEMBER_EXPRESSION | INDEX_EXPRESSION | IDENTIFIER | LITERAL

datatype Visibility = PUBLIC | PRIVATE | INTERNAL | EXTERNAL

datatype Mutability = PURE | VIEW | PAYABLE | NONE

text \<open>
  Every node class derives from \<open>ASTNode\<close> and is a record extending it. The classes of
  statements and expressions are not needed below: the fields that hold them have the open
  types \<open>'s\<close> (statement) and \<open>'e\<close> (expression). An \<open>__init__\<close> takes each defaulted
  parameter as an option, \<open>None\<close> for an argument left out; for a parameter whose default is
  Python's \<open>None\<close>, that is also the value \<open>None\<close> itself.
\<close>

record ASTNode =
  node_type :: NodeType
  line :: int
  column :: int

definition ASTNode_init :: "NodeType \<Rightarrow> int option \<Rightarrow> int option \<Rightarrow> ASTNode" where
  "ASTNode_init t l c = \<lparr>node_type = t, line = arg_or 0 l, column = arg_or 0 c\<rparr>"

record Parameter = ASTNode +
  name :: pystr
  param_type :: pystr

definition Parameter_init ::
  "pystr option \<Rightarrow> pystr option \<Rightarrow> int option \<Rightarrow> int option \<Rightarrow> Parameter" where
  "Parameter_init n t l c =
     \<lparr>node_type = PARAMETER, line = arg_or 0 l, column = arg_or 0 c,
      Parameter.name = arg_or [] n, param_type = arg_or [] t\<rparr>"

record 's Block = ASTNode +
  statements :: "'s list"

definition Block_init :: "'s list option \<Rightarrow> int option \<Rightarrow> int option \<Rightarrow> 's Block" where
  "Block_init ss l c =
     \<lparr>node_type = BLOCK, line = arg_or 0 l, column = arg_or 0 c, statements = arg_or [] ss\<rparr>"

record Event = ASTNode +
  name :: pystr
  parameters :: "Parameter list"

definition Event_init ::
  "pystr option \<Rightarrow> Parameter list option \<Rightarrow> int option \<Rightarrow> int option \<Rightarrow> Event" where
  "Event_init n ps l c =
     \<lparr>node_type = EVENT, line = arg_or 0 l, column = arg_or 0 c,
      Event.name = arg_or [] n, Event.parameters = arg_or [] ps\<rparr>"

record 's Constructor = ASTNode +
  parameters :: "Parameter list"
  body :: "'s Block option"

definition Constructor_init ::
  "Parameter list option \<Rightarrow> 's Block option \<Rightarrow> int option \<Rightarrow> int option \<Rightarrow> 's Constructor" where
  "Constructor_init ps b l c =
     \<lparr>node_type = CONSTRUCTOR, line = arg_or 0 l, column = arg_or 0 c,
      Constructor.parameters = arg_or [] ps, Constructor.body = b\<rparr>"

record 'e StateVariable = ASTNode +
  name :: pystr
  var_type :: pystr
  visibility :: Visibility
  initial_value :: "'e option"

definition StateVariable_init ::
  "pystr option \<Rightarrow> pystr option \<Rightarrow> Visibility option \<Rightarrow> 'e option \<Rightarrow> int option \<Rightarrow> int option
   \<Rightarrow> 'e StateVariable" where
  "StateVariable_init n t v iv l c =
     \<lparr>node_type = STATE_VARIABLE, line = arg_or 0 l, column = arg_or 0 c,
      StateVariable.name = arg_or [] n, var_type = arg_or [] t,
      StateVariable.visibility = arg_or PRIVATE v, initial_value = iv\<rparr>"

record 's Function = ASTNode +
  name :: pystr
  parameters :: "Parameter list"
  return_type :: "pystr option"
  visibility :: Visibility
  mutability :: Mutability
  body :: "'s Block option"

definition Function_init ::
  "pystr option \<Rightarrow> Parameter list option \<Rightarrow> pystr option \<Rightarrow> Visibility option
   \<Rightarrow> Mutability option \<Rightarrow> 's Block option \<Rightarrow> int option \<Rightarrow> int option \<Rightarrow> 's Function" where
  "Function_init n ps rt v m b l c =
     \<lparr>node_type = FUNCTION, line = arg_or 0 l, column = arg_or 0 c,
      Function.name = arg_or [] n, Function.parameters = arg_or [] ps, return_type = rt,
      Function.visibility = arg_or PUBLIC v, mutability = arg_or NONE m, Function.body = b\<rparr>"

record ('e, 's) Contract = ASTNode +
  name :: pystr
  state_variables :: "'e StateVariable list"
  functions' :: "'s Function list"
  events :: "Event list"
  constructor :: "'s Constructor option"

text \<open>
  \<open>Contract.__init__(self, name="", state_variables=None, functions=None, events=None,
  constructor=None, line=0, column=0)\<close>. The field \<open>functions\<close> is written \<open>functions'\<close>, since
  the plain word is reserved.
\<close>

definition Contract_init ::
  "pystr option \<Rightarrow> 'e StateVariable list option \<Rightarrow> 's Function list option \<Rightarrow> Event list option
   \<Rightarrow> 's Constructor option \<Rightarrow> int option \<Rightarrow> int option \<Rightarrow> ('e, 's) Contract" where
  "Contract_init n svs fs evs k l c =
     \<lparr>node_type = CONTRACT, line = arg_or 0 l, column = arg_or 0 c,
      Contract.name = arg_or [] n, state_variables = arg_or [] svs, functions' = arg_or [] fs,
      events = arg_or [] evs, constructor = k\<rparr>"

record ('e, 's) Program = ASTNode +
  contracts :: "('e, 's) Contract list"

definition Program_init ::
  "('e, 's) Contract list option \<Rightarrow> int option \<Rightarrow> int option \<Rightarrow> ('e, 's) Program" where
  "Program_init cs l c =
     \<lparr>node_type = PROGRAM, line = arg_or 0 l, column = arg_or 0 c, contracts = arg_or [] cs\<rparr>"

section \<open>Parts described by the specification only\<close>

text \<open>
  Modelled from the spec: the emitter (\<open>generate_solidity\<close> of the codegen package) is not
  among the sources. The specification says that the output is a single string beginning
  with the output preamble (the licence comment line, the pragma line, then a blank line),
  followed by each contract emitted in source order. How one contract is rendered is the
  parameter \<open>emit_contract\<close>.
\<close>

definition output_preamble :: pystr where
  "output_preamble =
     ascii ''// SPDX-License-Identifier: MIT'' @ [10]
     @ ascii ''pragma solidity ^0.8.0;'' @ [10]
     @ [10]"

definition emit :: "(('e, 's) Contract \<Rightarrow> pystr) \<Rightarrow> ('e, 's) Program \<Rightarrow> pystr" where
  "emit emit_contract p = output_preamble @ concat (map emit_contract (contracts p))"

text \<open>
  The message format that the specification gives for a failed \<open>compile\<close>:
  \<open>"<kind> at <line>:<column>: <detail>"\<close>.
\<close>

definition user_message :: "pystr \<Rightarrow> nat \<Rightarrow> nat \<Rightarrow> pystr \<Rightarrow> pystr" where
  "user_message kind l c detail =
     kind @ ascii '' at '' @ str_nat l @ ascii '':'' @ str_nat c @ ascii '': '' @ detail"

section \<open>A small instance of the stage interface\<close>

text \<open>
  Concrete stages on which the theorems below are exercised: tokens are code points and the
  tree is the token list. The lexer rejects a source containing \<open>?\<close>, the parser rejects an
  empty token list, the generator rejects a tree containing \<open>#\<close>.
\<close>

definition toy_stages :: "(nat, nat list) stages" where
  "toy_stages =
     \<lparr>tokenize = (\<lambda>src. if 63 \<in> set src then Inl (ascii ''unexpected symbol'') else Inr src),
      parse = (\<lambda>toks. if toks = [] then Inl (ascii ''nothing to parse'') else Inr toks),
      generate_solidity =
        (\<lambda>tree. if 35 \<in> set tree then Inl (ascii ''unknown type'') else Inr (ascii ''// '' @ tree))\<rparr>"

definition no_files :: files where
  "no_files =
     \<lparr>open_read = (\<lambda>p. Raised_FileNotFoundError), dirname = (\<lambda>p. []),
      makedirs = (\<lambda>p. None), open_write = (\<lambda>p c. None)\<rparr>"

text \<open>
  A second instance whose tree is a \<open>Program\<close> and whose generator is the emitter described by
  the specification: the parser wraps the source text as the name of a single empty contract.
\<close>

definition toy_emit_contract :: "(unit, unit) Contract \<Rightarrow> pystr" where
  "toy_emit_contract k = ascii ''contract '' @ Contract.name k @ ascii '' {}'' @ [10]"

definition toy_program_stages :: "(nat, (unit, unit) Program) stages" where
  "toy_program_stages =
     \<lparr>tokenize = (\<lambda>src. Inr src),
      parse = (\<lambda>toks. Inr (Program_init
                 (Some [Contract_init (Some toks) None None None None None None]) None None)),
      generate_solidity = (\<lambda>tree. Inr (emit toy_emit_contract tree))\<rparr>"

section \<open>Properties\<close>

subsection \<open>What a call of compile returns, calls and stores\<close>

lemma compile_result:
  "result (compile st self S) =
     (case tokenize st S of
        Inl e \<Rightarrow> Inl (LexerError, [0x8BCD, 0x6CD5, 0x5206, 0x6790, 0x5931, 0x8D25] @ ascii '': '' @ e)
      | Inr toks \<Rightarrow>
          (case parse st toks of
             Inl e \<Rightarrow> Inl (ParserError, [0x8BED, 0x6CD5, 0x5206, 0x6790, 0x5931, 0x8D25] @ ascii '': '' @ e)
           | Inr tree \<Rightarrow>
               (case generate_solidity st tree of
                  Inl e \<Rightarrow> Inl (CodeGenError, [0x4EE3, 0x7801, 0x751F, 0x6210, 0x5931, 0x8D25] @ ascii '': '' @ e)
                | Inr code \<Rightarrow> Inr code)))"
  by (simp add: compile_def result_def Let_def split: sum.splits)

lemma compile_stage_calls:
  "stage_calls (compile st self S) =
     (case tokenize st S of
        Inl e \<Rightarrow> [Called_tokenize S]
      | Inr toks \<Rightarrow>
          (case parse st toks of
             Inl e \<Rightarrow> [Called_tokenize S, Called_parse toks]
           | Inr tree \<Rightarrow> [Called_tokenize S, Called_parse toks, Called_generate_solidity tree]))"
  by (simp add: compile_def stage_calls_def trace_def log_def Let_def split: sum.splits)

lemma compile_object_after:
  "object_after (compile st self S) =
     (case tokenize st S of
        Inl e \<Rightarrow> self\<lparr>source_code := S\<rparr>
      | Inr toks \<Rightarrow>
          (case parse st toks of
             Inl e \<Rightarrow> self\<lparr>source_code := S, tokens := toks\<rparr>
           | Inr tree \<Rightarrow>
               (case generate_solidity st tree of
                  Inl e \<Rightarrow> self\<lparr>source_code := S, tokens := toks, ast := Some tree\<rparr>
                | Inr code \<Rightarrow>
                    self\<lparr>source_code := S, tokens := toks, ast := Some tree, solidity_code := code\<rparr>)))"
  by (simp add: compile_def object_after_def Let_def split: sum.splits)

lemma compile_trace_verbose:
  "verbose self = verbose self' \<Longrightarrow> trace (compile st self S) = trace (compile st self' S)"
  by (simp add: compile_def trace_def log_def Let_def split: sum.splits)

lemma user_message_has_at: "of_char (CHR ''a'') \<in> set (user_message kind l c detail)"
  by (simp add: user_message_def ascii_def)

subsection \<open>The pipeline\<close>

text \<open>
  C1. For every source \<open>S\<close>, \<open>compile\<close> calls the stages in the order tokenization, parsing,
  generation: \<open>tokenize\<close> on \<open>S\<close>, then \<open>parse\<close> on exactly the tokens that \<open>tokenize\<close>
  returned, then \<open>generate_solidity\<close> on exactly the tree that \<open>parse\<close> returned, each once
  and nothing else in between; the calls stop only at a stage that raises. \<open>compile\<close>
  returns a string exactly when all three stages returned, all three were then called in
  this order, and the string is the one the generator produced.
\<close>

theorem compile_runs_pipeline_in_order:
  "stage_calls (compile st self S) =
     (case tokenize st S of
        Inl e \<Rightarrow> [Called_tokenize S]
      | Inr toks \<Rightarrow>
          (case parse st toks of
             Inl e \<Rightarrow> [Called_tokenize S, Called_parse toks]
           | Inr tree \<Rightarrow> [Called_tokenize S, Called_parse toks, Called_generate_solidity tree]))
   \<and> (\<forall>code. result (compile st self S) = Inr code \<longleftrightarrow>
         (\<exists>toks tree. tokenize st S = Inr toks \<and> parse st toks = Inr tree
            \<and> generate_solidity st tree = Inr code
            \<and> stage_calls (compile st self S)
                = [Called_tokenize S, Called_parse toks, Called_generate_solidity tree]))"
  by (auto simp add: compile_result compile_stage_calls split: sum.splits)

theorem compile_runs_pipeline_in_order_witness:
  "stage_calls (compile toy_stages (ChineseSolidityCompiler_init None) (ascii ''ab''))
     = [Called_tokenize (ascii ''ab''), Called_parse (ascii ''ab''),
        Called_generate_solidity (ascii ''ab'')]
   \<and> result (compile toy_stages (ChineseSolidityCompiler_init None) (ascii ''ab''))
     = Inr (ascii ''// ab'')"
  using compile_runs_pipeline_in_order [of toy_stages "ChineseSolidityCompiler_init None" "ascii ''ab''"]
  by (simp add: toy_stages_def ascii_def)

subsection \<open>Errors\<close>

text \<open>
  C2. A failing \<open>compile\<close> raises one exception, whose class is that of the stage that failed:
  \<open>LexerError\<close> exactly when \<open>tokenize\<close> raised, \<open>ParserError\<close> exactly when \<open>tokenize\<close>
  returned and \<open>parse\<close> raised on its tokens, \<open>CodeGenError\<close> exactly when both returned and
  \<open>generate_solidity\<close> raised on the tree. The exception raised is an instance of exactly one
  of these three classes.
\<close>

theorem compile_failure_tagged_by_stage:
  "((\<exists>m. result (compile st self S) = Inl (LexerError, m)) \<longleftrightarrow> (\<exists>e. tokenize st S = Inl e))
   \<and> ((\<exists>m. result (compile st self S) = Inl (ParserError, m)) \<longleftrightarrow>
        (\<exists>toks e. tokenize st S = Inr toks \<and> parse st toks = Inl e))
   \<and> ((\<exists>m. result (compile st self S) = Inl (CodeGenError, m)) \<longleftrightarrow>
        (\<exists>toks tree e. tokenize st S = Inr toks \<and> parse st toks = Inr tree
           \<and> generate_solidity st tree = Inl e))
   \<and> (\<forall>k m. result (compile st self S) = Inl (k, m) \<longrightarrow>
         length (filter (isinstance k) [LexerError, ParserError, CodeGenError]) = 1)"
  by (auto simp add: compile_result split: sum.splits)

theorem compile_failure_tagged_by_stage_witness:
  "(\<exists>m. result (compile toy_stages (ChineseSolidityCompiler_init None) (ascii ''a#'')) = Inl (CodeGenError, m))
   \<and> length (filter (isinstance CodeGenError) [LexerError, ParserError, CodeGenError]) = 1"
  using compile_failure_tagged_by_stage [of toy_stages "ChineseSolidityCompiler_init None" "ascii ''a#''"]
  by (simp add: toy_stages_def ascii_def)

text \<open>
  The message of a failing \<open>compile\<close> need not have the form
  \<open>"<kind> at <line>:<column>: <detail>"\<close>: when the lexer raises an exception whose text is
  \<open>unexpected symbol\<close>, the message is the lexical prefix followed by that text, and no
  choice of kind, line, column and detail yields it.
\<close>

theorem compile_message_format_counterexample:
  "result (compile toy_stages (ChineseSolidityCompiler_init None) (ascii ''?''))
     = Inl (LexerError, [0x8BCD, 0x6CD5, 0x5206, 0x6790, 0x5931, 0x8D25] @ ascii '': unexpected symbol'')
   \<and> \<not> (\<exists>kind l c detail.
          [0x8BCD, 0x6CD5, 0x5206, 0x6790, 0x5931, 0x8D25] @ ascii '': unexpected symbol''
            = user_message kind l c detail)"
proof -
  have "of_char (CHR ''a'')
          \<notin> set ([0x8BCD, 0x6CD5, 0x5206, 0x6790, 0x5931, 0x8D25] @ ascii '': unexpected symbol'')"
    by (simp add: ascii_def)
  then have "\<not> (\<exists>kind l c detail.
          [0x8BCD, 0x6CD5, 0x5206, 0x6790, 0x5931, 0x8D25] @ ascii '': unexpected symbol''
            = user_message kind l c detail)"
    using user_message_has_at by metis
  moreover have "result (compile toy_stages (ChineseSolidityCompiler_init None) (ascii ''?''))
     = Inl (LexerError, [0x8BCD, 0x6CD5, 0x5206, 0x6790, 0x5931, 0x8D25] @ ascii '': unexpected symbol'')"
    by (simp add: compile_result toy_stages_def ascii_def)
  ultimately show ?thesis by blast
qed

text \<open>
  C3, as the code has it. The message of a failing \<open>compile\<close> is the fixed prefix of the stage
  that failed (U+8BCD U+6CD5 U+5206 U+6790 U+5931 U+8D25 for the lexer, U+8BED U+6CD5 U+5206
  U+6790 U+5931 U+8D25 for the parser, U+4EE3 U+7801 U+751F U+6210 U+5931 U+8D25 for the
  generator), a colon and a space, then the text of the exception that the stage raised.
  \<open>compile\<close> adds no line and no column of its own.
\<close>

theorem compile_message_is_prefix_and_text:
  "result (compile st self S) = Inl (k, m) \<Longrightarrow>
     (\<exists>e. tokenize st S = Inl e \<and> k = LexerError
          \<and> m = [0x8BCD, 0x6CD5, 0x5206, 0x6790, 0x5931, 0x8D25] @ ascii '': '' @ e)
   \<or> (\<exists>toks e. tokenize st S = Inr toks \<and> parse st toks = Inl e \<and> k = ParserError
          \<and> m = [0x8BED, 0x6CD5, 0x5206, 0x6790, 0x5931, 0x8D25] @ ascii '': '' @ e)
   \<or> (\<exists>toks tree e. tokenize st S = Inr toks \<and> parse st toks = Inr tree
          \<and> generate_solidity st tree = Inl e \<and> k = CodeGenError
          \<and> m = [0x4EE3, 0x7801, 0x751F, 0x6210, 0x5931, 0x8D25] @ ascii '': '' @ e)"
  by (auto simp add: compile_result split: sum.splits)

theorem compile_message_is_prefix_and_text_witness:
  "result (compile toy_stages (ChineseSolidityCompiler_init None) [])
     = Inl (ParserError, [0x8BED, 0x6CD5, 0x5206, 0x6790, 0x5931, 0x8D25] @ ascii '': nothing to parse'')
   \<and> tokenize toy_stages [] = Inr []
   \<and> parse toy_stages [] = Inl (ascii ''nothing to parse'')"
proof -
  have r: "result (compile toy_stages (ChineseSolidityCompiler_init None) [])
     = Inl (ParserError, [0x8BED, 0x6CD5, 0x5206, 0x6790, 0x5931, 0x8D25] @ ascii '': nothing to parse'')"
    by (simp add: compile_result toy_stages_def ascii_def)
  from compile_message_is_prefix_and_text [OF r] show ?thesis
    using r by (simp add: toy_stages_def)
qed

text \<open>
  C9. When the input path of \<open>compile_file\<close> does not exist (\<open>open\<close> raises
  \<open>FileNotFoundError\<close>), the call raises the base class \<open>CompilerError\<close>, which is an instance
  of none of \<open>LexerError\<close>, \<open>ParserError\<close>, \<open>CodeGenError\<close>; its message ends with the missing
  path; no stage is called; neither \<open>makedirs\<close> nor the output file is touched; the compiler
  object is unchanged. The same holds for the module-level \<open>compile_file\<close>.
\<close>

theorem compile_file_missing_input:
  "open_read fs input_file = Raised_FileNotFoundError \<Longrightarrow>
     result (compile_file st fs self input_file output_file)
       = Inl (CompilerError, [0x6587, 0x4EF6, 0x4E0D, 0x5B58, 0x5728] @ ascii '': '' @ input_file)
   \<and> filter (isinstance CompilerError) [LexerError, ParserError, CodeGenError] = []
   \<and> stage_calls (compile_file st fs self input_file output_file) = []
   \<and> filter is_output_effect (trace (compile_file st fs self input_file output_file)) = []
   \<and> object_after (compile_file st fs self input_file output_file) = self
   \<and> result (compile_file_function st fs input_file output_file v)
       = Inl (CompilerError, [0x6587, 0x4EF6, 0x4E0D, 0x5B58, 0x5728] @ ascii '': '' @ input_file)
   \<and> stage_calls (compile_file_function st fs input_file output_file v) = []
   \<and> filter is_output_effect (trace (compile_file_function st fs input_file output_file v)) = []"
  by (simp add: compile_file_def compile_file_function_def result_def stage_calls_def trace_def
        object_after_def log_def Let_def)

theorem compile_file_missing_input_witness:
  "open_read no_files (ascii ''a.zhs'') = Raised_FileNotFoundError
   \<and> result (compile_file toy_stages no_files (ChineseSolidityCompiler_init None) (ascii ''a.zhs'')
               (Some (ascii ''out/a.sol'')))
       = Inl (CompilerError, [0x6587, 0x4EF6, 0x4E0D, 0x5B58, 0x5728] @ ascii '': a.zhs'')
   \<and> trace (compile_file toy_stages no_files (ChineseSolidityCompiler_init None) (ascii ''a.zhs'')
               (Some (ascii ''out/a.sol'')))
       = [Opened_for_reading (ascii ''a.zhs'')]"
proof -
  have h: "open_read no_files (ascii ''a.zhs'') = Raised_FileNotFoundError"
    by (simp add: no_files_def)
  have t: "trace (compile_file toy_stages no_files (ChineseSolidityCompiler_init None) (ascii ''a.zhs'')
               (Some (ascii ''out/a.sol'')))
       = [Opened_for_reading (ascii ''a.zhs'')]"
    by (simp add: compile_file_def trace_def log_def no_files_def ChineseSolidityCompiler_init_def
          arg_or_def Let_def)
  from compile_file_missing_input
         [OF h, of toy_stages "ChineseSolidityCompiler_init None" "Some (ascii ''out/a.sol'')"] h t
  show ?thesis by (simp add: ascii_def)
qed

subsection \<open>AST nodes\<close>

text \<open>
  C4. A \<open>Function\<close> node built without a visibility argument has visibility \<open>PUBLIC\<close>, and
  built without a mutability argument has mutability \<open>NONE\<close>; a \<open>StateVariable\<close> node built
  without a visibility argument has visibility \<open>PRIVATE\<close>. An argument that is given is kept.
\<close>

theorem node_defaults:
  "Function.visibility (Function_init n ps rt None m b l c) = PUBLIC
   \<and> mutability (Function_init n ps rt v None b l c) = NONE
   \<and> StateVariable.visibility (StateVariable_init n' t None iv l' c') = PRIVATE
   \<and> Function.visibility (Function_init n ps rt (Some v') m b l c) = v'
   \<and> mutability (Function_init n ps rt v (Some m') b l c) = m'
   \<and> StateVariable.visibility (StateVariable_init n' t (Some v') iv l' c') = v'"
  by (simp add: Function_init_def StateVariable_init_def arg_or_def)

text \<open>
  C5. The constructor of a \<open>Contract\<close> node is one optional slot: every \<open>Contract\<close> value holds
  at most one \<open>Constructor\<close>; a \<open>Contract\<close> built without a constructor argument holds none,
  and one built with a constructor holds that one.
\<close>

theorem contract_at_most_one_constructor:
  "card (set_option (constructor k)) \<le> 1
   \<and> constructor (Contract_init n svs fs evs None l c) = None
   \<and> constructor (Contract_init n svs fs evs (Some ctor) l c) = Some ctor"
  by (cases "constructor k") (simp_all add: Contract_init_def)

subsection \<open>Independence of calls\<close>

text \<open>
  C6. Two calls of \<open>compile_code\<close> on the same source give the same outcome and make the same
  stage calls, whatever \<open>verbose\<close> is. The outcome of \<open>compile\<close> on a compiler object does not
  depend on the state of that object, hence not on any earlier call made on it: it is the
  outcome of \<open>compile_code\<close> on a fresh object. Everything a call does, its printed lines
  included, depends on the object through \<open>verbose\<close> alone.
\<close>

theorem compile_independent_of_earlier_calls:
  "result (compile_code st S v) = result (compile_code st S v')
   \<and> stage_calls (compile_code st S v) = stage_calls (compile_code st S v')
   \<and> result (compile st self S) = result (compile_code st S v)
   \<and> result (compile st (object_after (compile st self S0)) S) = result (compile_code st S v)
   \<and> (verbose self = verbose self' \<longrightarrow> trace (compile st self S) = trace (compile st self' S))"
proof -
  have "verbose self = verbose self' \<longrightarrow> trace (compile st self S) = trace (compile st self' S)"
    using compile_trace_verbose by blast
  then show ?thesis
    by (simp add: compile_code_def compile_result compile_stage_calls)
qed

theorem compile_independent_of_earlier_calls_witness:
  "result (compile toy_stages
             (object_after (compile toy_stages (ChineseSolidityCompiler_init None) (ascii ''#'')))
             (ascii ''ab''))
     = result (compile_code toy_stages (ascii ''ab'') None)
   \<and> result (compile_code toy_stages (ascii ''ab'') None) = Inr (ascii ''// ab'')
   \<and> trace (compile toy_stages
             (object_after (compile toy_stages (ChineseSolidityCompiler_init None) (ascii ''#'')))
             (ascii ''ab''))
     = trace (compile toy_stages (ChineseSolidityCompiler_init (Some False)) (ascii ''ab''))"
proof -
  have v: "verbose (object_after (compile toy_stages (ChineseSolidityCompiler_init None) (ascii ''#'')))
           = verbose (ChineseSolidityCompiler_init (Some False) :: (nat, nat list) ChineseSolidityCompiler)"
    by (simp add: compile_object_after ChineseSolidityCompiler_init_def arg_or_def split: sum.splits)
  have r: "result (compile_code toy_stages (ascii ''ab'') None) = Inr (ascii ''// ab'')"
    by (simp add: compile_code_def compile_result toy_stages_def ascii_def)
  from compile_independent_of_earlier_calls
         [of toy_stages "ascii ''ab''" None None
             "object_after (compile toy_stages (ChineseSolidityCompiler_init None) (ascii ''#''))"
             "ascii ''#''" "ChineseSolidityCompiler_init (Some False)"] v r
  show ?thesis by simp
qed

subsection \<open>Getters\<close>

text \<open>
  The code has no accessor that takes a source: \<open>get_tokens()\<close> and \<open>get_ast()\<close> read the
  fields of the compiler object, so what they return for a source depends on what the object
  held before. On an object that has compiled \<open>ab\<close>, a call of \<open>compile\<close> on \<open>?\<close> (which the
  lexer rejects) leaves \<open>get_tokens()\<close> at the tokens of \<open>ab\<close>, while on a fresh object it
  leaves the empty list; a call on the empty source (which the parser rejects) leaves
  \<open>get_ast()\<close> at the tree of \<open>ab\<close>, while on a fresh object it leaves \<open>None\<close>.
\<close>

theorem getters_stale_counterexample:
  "tokenize toy_stages (ascii ''?'') = Inl (ascii ''unexpected symbol'')
   \<and> get_tokens (object_after (compile toy_stages
         (object_after (compile toy_stages (ChineseSolidityCompiler_init None) (ascii ''ab'')))
         (ascii ''?''))) = ascii ''ab''
   \<and> get_tokens (object_after (compile toy_stages (ChineseSolidityCompiler_init None) (ascii ''?'')))
       = []
   \<and> tokenize toy_stages [] = Inr []
   \<and> parse toy_stages [] = Inl (ascii ''nothing to parse'')
   \<and> get_ast (object_after (compile toy_stages
         (object_after (compile toy_stages (ChineseSolidityCompiler_init None) (ascii ''ab'')))
         [])) = Some (ascii ''ab'')
   \<and> get_ast (object_after (compile toy_stages (ChineseSolidityCompiler_init None) [])) = None"
  by (simp add: compile_object_after get_tokens_def get_ast_def toy_stages_def
        ChineseSolidityCompiler_init_def ascii_def)

text \<open>
  C7, as the code has it. The accessors for the intermediate structures are the getters
  \<open>get_tokens()\<close> and \<open>get_ast()\<close> of a compiler object, which take no source: after
  \<open>compile\<close> has been called on a source, on any object, \<open>get_tokens()\<close> returns the token
  sequence that the lexer produced for that source, when the lexer returned, and \<open>get_ast()\<close>
  returns the tree that the parser produced from it, when the parser returned.
\<close>

theorem getters_after_compile:
  "(tokenize st S = Inr toks \<longrightarrow> get_tokens (object_after (compile st self S)) = toks)
   \<and> (tokenize st S = Inr toks \<and> parse st toks = Inr tree \<longrightarrow>
        get_ast (object_after (compile st self S)) = Some tree)"
  by (simp add: compile_object_after get_tokens_def get_ast_def split: sum.splits)

theorem getters_after_compile_witness:
  "tokenize toy_stages (ascii ''a#'') = Inr (ascii ''a#'')
   \<and> parse toy_stages (ascii ''a#'') = Inr (ascii ''a#'')
   \<and> get_tokens (object_after (compile toy_stages (ChineseSolidityCompiler_init None) (ascii ''a#'')))
       = ascii ''a#''
   \<and> get_ast (object_after (compile toy_stages (ChineseSolidityCompiler_init None) (ascii ''a#'')))
       = Some (ascii ''a#'')"
proof -
  have t: "tokenize toy_stages (ascii ''a#'') = Inr (ascii ''a#'')"
    by (simp add: toy_stages_def ascii_def)
  have p: "parse toy_stages (ascii ''a#'') = Inr (ascii ''a#'')"
    by (simp add: toy_stages_def ascii_def)
  from getters_after_compile
         [of toy_stages "ascii ''a#''" "ascii ''a#''" "ChineseSolidityCompiler_init None" "ascii ''a#''"] t p
  show ?thesis by simp
qed

text \<open>
  C10. On a freshly constructed compiler object, before any call of \<open>compile\<close>,
  \<open>get_tokens()\<close> is the empty list, \<open>get_ast()\<close> is \<open>None\<close> and \<open>get_solidity_code()\<close> is
  the empty string, whatever \<open>verbose\<close> was given.
\<close>

theorem fresh_compiler_getters:
  "get_tokens (ChineseSolidityCompiler_init v) = []
   \<and> get_ast (ChineseSolidityCompiler_init v) = None
   \<and> get_solidity_code (ChineseSolidityCompiler_init v) = []"
  by (simp add: get_tokens_def get_ast_def get_solidity_code_def ChineseSolidityCompiler_init_def)

subsection \<open>The output preamble\<close>

text \<open>
  C8. With the emitter that the specification describes as the generation stage, every
  string that \<open>compile\<close> returns begins with the line \<open>// SPDX-License-Identifier: MIT\<close>, the
  line \<open>pragma solidity ^0.8.0;\<close> and a blank line.
\<close>

theorem emitted_code_begins_with_preamble:
  "result (compile (st\<lparr>generate_solidity := (\<lambda>tree. Inr (emit emit_contract tree))\<rparr>) self S) = Inr code
   \<Longrightarrow> prefix (ascii ''// SPDX-License-Identifier: MIT'' @ [10]
                @ ascii ''pragma solidity ^0.8.0;'' @ [10] @ [10]) code"
  by (auto simp add: compile_result emit_def output_preamble_def split: sum.splits)

theorem emitted_code_begins_with_preamble_witness:
  "result (compile (toy_program_stages\<lparr>generate_solidity := (\<lambda>tree. Inr (emit toy_emit_contract tree))\<rparr>)
             (ChineseSolidityCompiler_init None) (ascii ''T''))
     = Inr (ascii ''// SPDX-License-Identifier: MIT'' @ [10]
            @ ascii ''pragma solidity ^0.8.0;'' @ [10] @ [10] @ ascii ''contract T {}'' @ [10])
   \<and> prefix (ascii ''// SPDX-License-Identifier: MIT'' @ [10]
             @ ascii ''pragma solidity ^0.8.0;'' @ [10] @ [10])
        (ascii ''// SPDX-License-Identifier: MIT'' @ [10]
            @ ascii ''pragma solidity ^0.8.0;'' @ [10] @ [10] @ ascii ''contract T {}'' @ [10])"
proof -
  have r: "result (compile (toy_program_stages\<lparr>generate_solidity := (\<lambda>tree. Inr (emit toy_emit_contract tree))\<rparr>)
             (ChineseSolidityCompiler_init None) (ascii ''T''))
     = Inr (ascii ''// SPDX-License-Identifier: MIT'' @ [10]
            @ ascii ''pragma solidity ^0.8.0;'' @ [10] @ [10] @ ascii ''contract T {}'' @ [10])"
    by (simp add: compile_result toy_program_stages_def emit_def output_preamble_def
          toy_emit_contract_def Program_init_def Contract_init_def arg_or_def ascii_def)
  from emitted_code_begins_with_preamble [OF r] r show ?thesis by simp
qed

end
